theory Spec2Isabelle
  imports Main "HOL-Library.Word"
begin

section \<open>The graph nodes of the companion agent (ai\_companion/graph/nodes.py)\<close>

text \<open>
  Each node of the workflow graph takes the conversation state (a dictionary) and returns
  a partial update of it (a dictionary holding only the keys the node sets). The nodes call
  external collaborators: language-model chains, the text-to-image and text-to-speech
  modules, the memory manager and the activity schedule. The collaborators are parameters
  of the model (the record \<open>env\<close>); an awaited call can raise, so it returns a sum, and
  every call a node makes is written to a log together with its arguments, in the order of
  the source.
\<close>

subsection \<open>Messages\<close>

text \<open>
  The three message classes the nodes construct. A message built by a node from its content
  alone carries no identity (\<open>id = None\<close> in the source library); \<open>RemoveMessage\<close> is
  built from an identity and has empty content.
\<close>

datatype message_type = human | ai | remove

record message =
  mtype :: message_type
  content :: string
  id_of :: "string option"

definition HumanMessage :: "string \<Rightarrow> message" where
  "HumanMessage c = \<lparr>mtype = human, content = c, id_of = None\<rparr>"

definition AIMessage :: "string \<Rightarrow> message" where
  "AIMessage c = \<lparr>mtype = ai, content = c, id_of = None\<rparr>"

definition RemoveMessage :: "string option \<Rightarrow> message" where
  "RemoveMessage i = \<lparr>mtype = remove, content = [], id_of = i\<rparr>"

subsection \<open>Python list slices and string join\<close>

text \<open>\<open>xs[i:]\<close>: a negative bound counts from the end, and every bound is clamped.\<close>

definition py_slice_from :: "int \<Rightarrow> 'a list \<Rightarrow> 'a list" where
  "py_slice_from i xs =
     (let n = int (length xs);
          start = (if i < 0 then max (n + i) 0 else min i n)
      in drop (nat start) xs)"

text \<open>\<open>xs[:j]\<close>.\<close>

definition py_slice_to :: "int \<Rightarrow> 'a list \<Rightarrow> 'a list" where
  "py_slice_to j xs =
     (let n = int (length xs);
          stop = (if j < 0 then max (n + j) 0 else min j n)
      in take (nat stop) xs)"

text \<open>\<open>sep.join(xs)\<close>.\<close>

fun join :: "string \<Rightarrow> string list \<Rightarrow> string" where
  "join sep [] = []"
| "join sep [x] = x"
| "join sep (x # y # ys) = x @ sep @ join sep (y # ys)"

subsection \<open>Conversation state and node updates\<close>

type_synonym bytes = "8 word list"

text \<open>
  Modelled from the spec: the declaration of \<open>AICompanionState\<close> (graph/state.py) is not
  among the sources. The state is a dictionary; \<open>messages\<close> is always present (the nodes
  read it as \<open>state["messages"]\<close>), every other key may be absent (the nodes read them as
  \<open>state.get(key, "")\<close>), so it is an option here.
\<close>

record state =
  messages :: "message list"
  summary :: "string option"
  workflow :: "string option"
  current_activity :: "string option"
  apply_activity :: "bool option"
  memory_context :: "string option"
  image_path :: "string option"
  audio_buffer :: "bytes option"

text \<open>\<open>state.get(key, "")\<close> for a string-valued key.\<close>

definition get_or_empty :: "string option \<Rightarrow> string" where
  "get_or_empty v = (case v of None \<Rightarrow> [] | Some x \<Rightarrow> x)"

text \<open>
  The value a node returns under the key \<open>messages\<close>: one message object
  (\<open>AIMessage(content=response)\<close>), the bare response string, or a list of messages.
\<close>

datatype messages_update =
    One message
  | Raw string
  | Many "message list"

text \<open>
  The dictionary a node returns: a key that is not in the dictionary is \<open>None\<close>;
  \<open>empty_update\<close> is \<open>{}\<close>.
\<close>

record update =
  upd_messages :: "messages_update option"
  upd_summary :: "string option"
  upd_workflow :: "string option"
  upd_current_activity :: "string option"
  upd_apply_activity :: "bool option"
  upd_memory_context :: "string option"
  upd_image_path :: "string option"
  upd_audio_buffer :: "bytes option"

definition empty_update :: update where
  "empty_update =
     \<lparr>upd_messages = None, upd_summary = None, upd_workflow = None,
      upd_current_activity = None, upd_apply_activity = None,
      upd_memory_context = None, upd_image_path = None, upd_audio_buffer = None\<rparr>"

subsection \<open>Settings and collaborators\<close>

text \<open>
  The two values of \<open>settings\<close> the nodes read (settings.py is not among the sources, so
  they are parameters).
\<close>

record settings =
  ROUTER_MESSAGES_TO_ANALYZE :: int
  TOTAL_MESSAGES_AFTER_SUMMARY :: int

text \<open>The opaque \<open>RunnableConfig\<close> dictionary handed through to the response chain.\<close>

type_synonym RunnableConfig = "(string \<times> string) list"

text \<open>The input dictionary of the character response chain.\<close>

record chain_input =
  in_messages :: "message list"
  in_current_activity :: string
  in_memory_context :: string

text \<open>What the router chain returns, and what \<open>create_scenario\<close> returns.\<close>

record router_response =
  response_type :: string

record scenario =
  image_prompt :: string

text \<open>An exception raised by a collaborator.\<close>

datatype failure = Failure string

text \<open>
  The collaborators. The factories \<open>get_router_chain\<close>, \<open>get_chat_model\<close>,
  \<open>get_text_to_image_module\<close>, \<open>get_text_to_speech_module\<close> and
  \<open>get_memory_manager\<close> only hand out the collaborator and are folded into the call
  made on their result; \<open>get_character_response_chain(summary)\<close> builds the chain from
  the summary, so the summary is the first argument of \<open>character_response_chain\<close>.
  A node calls each collaborator at most once, so a function of the call's arguments
  covers every answer a collaborator can give within one run of a node.
\<close>

record env =
  router_chain :: "message list \<Rightarrow> failure + router_response"
  get_current_activity :: string
  character_response_chain :: "string \<Rightarrow> chain_input \<Rightarrow> RunnableConfig \<Rightarrow> failure + string"
  create_scenario :: "message list \<Rightarrow> failure + scenario"
  makedirs :: "string \<Rightarrow> failure + unit"
  uuid4 :: string
  generate_image :: "string \<Rightarrow> string \<Rightarrow> failure + unit"
  synthesize :: "string \<Rightarrow> failure + bytes"
  chat_model :: "message list \<Rightarrow> failure + message"
  extract_and_store_memories :: "message \<Rightarrow> failure + unit"
  get_relevant_memories :: "string \<Rightarrow> failure + string list"
  format_memories_for_prompt :: "string list \<Rightarrow> string"

text \<open>The log of calls that have an effect outside the node, with their arguments.\<close>

datatype call =
    Call_router_chain "message list"
  | Call_character_response_chain string chain_input RunnableConfig
  | Call_create_scenario "message list"
  | Call_makedirs string
  | Call_generate_image string string
  | Call_synthesize string
  | Call_chat_model "message list"
  | Call_extract_and_store_memories message
  | Call_get_relevant_memories string

text \<open>
  A run of a node: the calls it made, and either the exception that ended it or its
  result. After a failed call nothing more is called.
\<close>

type_synonym 'a run = "call list \<times> (failure + 'a)"

definition done_with :: "'a \<Rightarrow> 'a run" where
  "done_with a = ([], Inr a)"

definition perform :: "call \<Rightarrow> (failure + 'a) \<Rightarrow> 'a run" where
  "perform c r = ([c], r)"

definition and_then :: "'a run \<Rightarrow> ('a \<Rightarrow> 'b run) \<Rightarrow> 'b run" where
  "and_then m f =
     (case m of
        (l, Inl e) \<Rightarrow> (l, Inl e)
      | (l, Inr a) \<Rightarrow> (case f a of (l', r) \<Rightarrow> (l @ l', r)))"

subsection \<open>The nodes\<close>

definition router_node :: "env \<Rightarrow> settings \<Rightarrow> state \<Rightarrow> update run" where
  "router_node E cfg s =
     and_then
       (perform
          (Call_router_chain (py_slice_from (- ROUTER_MESSAGES_TO_ANALYZE cfg) (messages s)))
          (router_chain E (py_slice_from (- ROUTER_MESSAGES_TO_ANALYZE cfg) (messages s))))
       (\<lambda>response. done_with (empty_update\<lparr>upd_workflow := Some (response_type response)\<rparr>))"

definition context_injection_node :: "env \<Rightarrow> state \<Rightarrow> update" where
  "context_injection_node E s =
     (let schedule_context = get_current_activity E;
          apply = (if schedule_context \<noteq> get_or_empty (current_activity s) then True else False)
      in empty_update\<lparr>upd_apply_activity := Some apply,
                      upd_current_activity := Some schedule_context\<rparr>)"

definition conversation_node :: "env \<Rightarrow> state \<Rightarrow> RunnableConfig \<Rightarrow> update run" where
  "conversation_node E s config =
     (let activity = get_current_activity E;
          memory = get_or_empty (memory_context s);
          inp = \<lparr>in_messages = messages s, in_current_activity = activity,
                 in_memory_context = memory\<rparr>
      in and_then
           (perform
              (Call_character_response_chain (get_or_empty (summary s)) inp config)
              (character_response_chain E (get_or_empty (summary s)) inp config))
           (\<lambda>response. done_with (empty_update\<lparr>upd_messages := Some (One (AIMessage response))\<rparr>)))"

text \<open>The text of the synthetic message and the path of the image file.\<close>

definition scenario_message :: "string \<Rightarrow> message" where
  "scenario_message prompt =
     HumanMessage (''<image attached by Ava generated from prompt: '' @ prompt @ ''>'')"

definition img_path :: "env \<Rightarrow> string" where
  "img_path E = ''generated_images/image_'' @ uuid4 E @ ''.png''"

definition image_node :: "env \<Rightarrow> state \<Rightarrow> RunnableConfig \<Rightarrow> update run" where
  "image_node E s config =
     (let activity = get_current_activity E;
          memory = get_or_empty (memory_context s)
      in and_then
           (perform
              (Call_create_scenario (py_slice_from (- 5) (messages s)))
              (create_scenario E (py_slice_from (- 5) (messages s))))
           (\<lambda>sc. and_then
              (perform (Call_makedirs ''generated_images'') (makedirs E ''generated_images''))
              (\<lambda>_. and_then
                 (perform
                    (Call_generate_image (image_prompt sc) (img_path E))
                    (generate_image E (image_prompt sc) (img_path E)))
                 (\<lambda>_. let updated_messages = messages s @ [scenario_message (image_prompt sc)];
                          inp = \<lparr>in_messages = updated_messages,
                                 in_current_activity = activity,
                                 in_memory_context = memory\<rparr>
                      in and_then
                           (perform
                              (Call_character_response_chain (get_or_empty (summary s)) inp config)
                              (character_response_chain E (get_or_empty (summary s)) inp config))
                           (\<lambda>response. done_with
                              (empty_update\<lparr>upd_messages := Some (One (AIMessage response)),
                                            upd_image_path := Some (img_path E)\<rparr>))))))"

definition audio_node :: "env \<Rightarrow> state \<Rightarrow> RunnableConfig \<Rightarrow> update run" where
  "audio_node E s config =
     (let activity = get_current_activity E;
          memory = get_or_empty (memory_context s);
          inp = \<lparr>in_messages = messages s, in_current_activity = activity,
                 in_memory_context = memory\<rparr>
      in and_then
           (perform
              (Call_character_response_chain (get_or_empty (summary s)) inp config)
              (character_response_chain E (get_or_empty (summary s)) inp config))
           (\<lambda>response. and_then
              (perform (Call_synthesize response) (synthesize E response))
              (\<lambda>output_audio. done_with
                 (empty_update\<lparr>upd_messages := Some (Raw response),
                               upd_audio_buffer := Some output_audio\<rparr>))))"

text \<open>The instruction the summarization node builds from the summary so far.\<close>

definition summary_message :: "string \<Rightarrow> string" where
  "summary_message summ =
     (if summ \<noteq> [] then
        ''This is summary of the conversation to date between Ava and the user: '' @ summ
        @ [CHR 0x0A, CHR 0x0A]
        @ ''Extend the summary by taking into account the new messages above:''
      else
        ''Create a summary of the conversation above between Ava and the user. ''
        @ ''The summary must be a short description of the conversation so far, ''
        @ ''but that captures all the relevant information shared between Ava and the user:'')"

definition summarize_conversation_node :: "env \<Rightarrow> settings \<Rightarrow> state \<Rightarrow> update run" where
  "summarize_conversation_node E cfg s =
     (let summ = get_or_empty (summary s);
          msgs = messages s @ [HumanMessage (summary_message summ)]
      in and_then
           (perform (Call_chat_model msgs) (chat_model E msgs))
           (\<lambda>response.
              let delete_messages =
                    map (\<lambda>m. RemoveMessage (id_of m))
                      (py_slice_to (- TOTAL_MESSAGES_AFTER_SUMMARY cfg) (messages s))
              in done_with (empty_update\<lparr>upd_summary := Some (content response),
                                         upd_messages := Some (Many delete_messages)\<rparr>)))"

definition memory_extraction_node :: "env \<Rightarrow> state \<Rightarrow> update run" where
  "memory_extraction_node E s =
     (if messages s = [] then done_with empty_update
      else and_then
             (perform
                (Call_extract_and_store_memories (last (messages s)))
                (extract_and_store_memories E (last (messages s))))
             (\<lambda>_. done_with empty_update))"

definition memory_injection_node :: "env \<Rightarrow> state \<Rightarrow> update run" where
  "memory_injection_node E s =
     (let recent_context = join '' '' (map content (py_slice_from (- 3) (messages s)))
      in and_then
           (perform
              (Call_get_relevant_memories recent_context)
              (get_relevant_memories E recent_context))
           (\<lambda>memories. done_with
              (empty_update\<lparr>upd_memory_context := Some (format_memories_for_prompt E memories)\<rparr>)))"

subsection \<open>Merging a node's messages into the history\<close>

text \<open>
  Modelled from the spec: the workflow engine's merge of the messages a node returns into
  the history is not among the sources. Sections 4.6 and 9 of the specification: message
  sequences are appended, and a removal marker removes by identity match, not by
  position; section 7 (d): a marker whose identity is not in the history does nothing.
\<close>

definition is_removal :: "message \<Rightarrow> bool" where
  "is_removal m = (mtype m = remove)"

definition merge_messages :: "message list \<Rightarrow> message list \<Rightarrow> message list" where
  "merge_messages history upd =
     filter (\<lambda>m. id_of m \<notin> set (map id_of (filter is_removal upd))) history
     @ filter (\<lambda>m. \<not> is_removal m) upd"

subsection \<open>Concrete inputs\<close>

definition example_messages :: "message list" where
  "example_messages =
     [\<lparr>mtype = human, content = ''Hi, I am Alex and I love jazz.'', id_of = Some ''m1''\<rparr>,
      \<lparr>mtype = ai, content = ''Nice to meet you, Alex!'', id_of = Some ''m2''\<rparr>,
      \<lparr>mtype = human, content = ''Show me where you are.'', id_of = Some ''m3''\<rparr>]"

definition example_state :: state where
  "example_state =
     \<lparr>messages = example_messages, summary = None, workflow = None,
      current_activity = None, apply_activity = None, memory_context = None,
      image_path = None, audio_buffer = None\<rparr>"

definition empty_state :: state where
  "empty_state = example_state\<lparr>messages := []\<rparr>"

definition summarized_state :: state where
  "summarized_state =
     example_state\<lparr>summary := Some ''Alex loves jazz.'',
                   current_activity := Some ''Ava is having lunch.''\<rparr>"

definition example_settings :: settings where
  "example_settings = \<lparr>ROUTER_MESSAGES_TO_ANALYZE = 2, TOTAL_MESSAGES_AFTER_SUMMARY = 2\<rparr>"

definition example_env :: env where
  "example_env =
     \<lparr>router_chain = (\<lambda>ms. Inr \<lparr>response_type = ''image''\<rparr>),
      get_current_activity = ''Ava is walking in Kyoto.'',
      character_response_chain = (\<lambda>summ inp config. Inr ''Here is my view!''),
      create_scenario = (\<lambda>ms. Inr \<lparr>image_prompt = ''a sunset over Kyoto''\<rparr>),
      makedirs = (\<lambda>path. Inr ()),
      uuid4 = ''0000'',
      generate_image = (\<lambda>prompt path. Inr ()),
      synthesize = (\<lambda>txt. Inr [1, 2, 3]),
      chat_model = (\<lambda>ms. Inr (AIMessage ''Alex loves jazz and asked for a picture.'')),
      extract_and_store_memories = (\<lambda>m. Inr ()),
      get_relevant_memories = (\<lambda>query. Inr [''Alex loves jazz'']),
      format_memories_for_prompt = join '', ''\<rparr>"

text \<open>A classifier that answers with a label outside the three workflows.\<close>

definition video_env :: env where
  "video_env = example_env\<lparr>router_chain := (\<lambda>ms. Inr \<lparr>response_type = ''video''\<rparr>)\<rparr>"

text \<open>A schedule whose activity text is the empty string.\<close>

definition idle_env :: env where
  "idle_env = example_env\<lparr>get_current_activity := []\<rparr>"


section \<open>Properties of the nodes\<close>

subsection \<open>Runs and slices\<close>

lemma and_then_perform_Inr:
  "and_then (perform c (Inr a)) f = (c # fst (f a), snd (f a))"
  by (simp add: and_then_def perform_def split: prod.splits)

lemma and_then_perform_Inl:
  "and_then (perform c (Inl e)) f = ([c], Inl e)"
  by (simp add: and_then_def perform_def)

lemma fst_and_then_done:
  "fst (and_then (perform c r) (\<lambda>a. done_with (g a))) = [c]"
  by (cases r) (simp_all add: done_with_def and_then_perform_Inr and_then_perform_Inl)

lemma snd_and_then_done:
  "snd (and_then (perform c r) (\<lambda>a. done_with (g a))) = map_sum id g r"
  by (cases r) (simp_all add: done_with_def and_then_perform_Inr and_then_perform_Inl)

lemmas run_simps = and_then_perform_Inr and_then_perform_Inl done_with_def






subsection \<open>The router node\<close>

text \<open>
  C1, where the statement fails: the router node does not check the label it gets. With a
  classifier that answers \<open>video\<close>, the node returns \<open>{"workflow": "video"}\<close>: the
  value is none of conversation, image and audio, and it is not replaced by conversation.
\<close>

theorem router_node_unrecognized_label_counterexample:
  "router_node video_env example_settings example_state =
     ([Call_router_chain (drop 1 example_messages)],
      Inr (empty_update\<lparr>upd_workflow := Some ''video''\<rparr>))
   \<and> ''video'' \<notin> {''conversation'', ''image'', ''audio''}"
  by (simp add: router_node_def video_env_def example_env_def example_settings_def
      example_state_def example_messages_def py_slice_from_def run_simps)

text \<open>
  C1, as the code has it: the router node hands the last \<open>ROUTER_MESSAGES_TO_ANALYZE\<close>
  messages to the classifier, and when the classifier answers, the node returns the
  classifier's label unchanged under the key \<open>workflow\<close> and sets no other key. So the
  workflow is one of the three values whenever the classifier's label is.
\<close>

theorem router_node_passes_label_on:
  assumes "router_chain E (py_slice_from (- ROUTER_MESSAGES_TO_ANALYZE cfg) (messages s)) = Inr r"
  shows "router_node E cfg s =
           ([Call_router_chain (py_slice_from (- ROUTER_MESSAGES_TO_ANALYZE cfg) (messages s))],
            Inr (empty_update\<lparr>upd_workflow := Some (response_type r)\<rparr>))"
  using assms by (simp add: router_node_def run_simps)

text \<open>
  The classifier of the example answers \<open>image\<close> on the last two of three messages.
\<close>

theorem router_node_passes_label_on_witness:
  "router_node example_env example_settings example_state =
     ([Call_router_chain (drop 1 example_messages)],
      Inr (empty_update\<lparr>upd_workflow := Some ''image''\<rparr>))"
  using router_node_passes_label_on
          [of example_env example_settings example_state "\<lparr>response_type = ''image''\<rparr>"]
  by (simp add: example_env_def example_settings_def example_state_def example_messages_def
      py_slice_from_def)

subsection \<open>The image node\<close>

text \<open>
  C2, where the statement fails: the synthetic message is part of the list handed to the
  response chain only. The update the node returns holds the agent message alone, so the
  history that results from merging the update does not contain the synthetic message.
\<close>

theorem image_node_history_counterexample:
  "image_node example_env example_state [] =
     ([Call_create_scenario example_messages,
       Call_makedirs ''generated_images'',
       Call_generate_image ''a sunset over Kyoto'' ''generated_images/image_0000.png'',
       Call_character_response_chain []
         \<lparr>in_messages = example_messages @ [scenario_message ''a sunset over Kyoto''],
          in_current_activity = ''Ava is walking in Kyoto.'',
          in_memory_context = []\<rparr> []],
      Inr (empty_update\<lparr>upd_messages := Some (One (AIMessage ''Here is my view!'')),
                        upd_image_path := Some ''generated_images/image_0000.png''\<rparr>))
   \<and> merge_messages (messages example_state) [AIMessage ''Here is my view!'']
       = example_messages @ [AIMessage ''Here is my view!'']
   \<and> scenario_message ''a sunset over Kyoto''
       \<notin> set (merge_messages (messages example_state) [AIMessage ''Here is my view!''])"
  by (simp add: image_node_def example_env_def example_state_def example_messages_def
      py_slice_from_def run_simps img_path_def get_or_empty_def merge_messages_def
      is_removal_def AIMessage_def scenario_message_def HumanMessage_def)

text \<open>
  C2, as the code has it: when the scenario, the directory, the image and the response are
  produced, the image node hands the response chain the existing history followed by one
  synthetic message, of type human, whose content quotes the generated image prompt
  exactly; the update it returns holds the agent message built from the response, and the
  path of the image under \<open>image_path\<close>, and nothing else.
\<close>

theorem image_node_passes_scenario_message_to_chain:
  assumes "create_scenario E (py_slice_from (- 5) (messages s)) = Inr sc"
    and "makedirs E ''generated_images'' = Inr ()"
    and "generate_image E (image_prompt sc) (img_path E) = Inr ()"
    and "character_response_chain E (get_or_empty (summary s))
           \<lparr>in_messages = messages s @ [scenario_message (image_prompt sc)],
            in_current_activity = get_current_activity E,
            in_memory_context = get_or_empty (memory_context s)\<rparr> config = Inr response"
  shows "image_node E s config =
           ([Call_create_scenario (py_slice_from (- 5) (messages s)),
             Call_makedirs ''generated_images'',
             Call_generate_image (image_prompt sc) (img_path E),
             Call_character_response_chain (get_or_empty (summary s))
               \<lparr>in_messages = messages s @ [scenario_message (image_prompt sc)],
                in_current_activity = get_current_activity E,
                in_memory_context = get_or_empty (memory_context s)\<rparr> config],
            Inr (empty_update\<lparr>upd_messages := Some (One (AIMessage response)),
                              upd_image_path := Some (img_path E)\<rparr>))
         \<and> scenario_message (image_prompt sc) =
             \<lparr>mtype = human,
              content = ''<image attached by Ava generated from prompt: '' @ image_prompt sc @ ''>'',
              id_of = None\<rparr>"
  using assms by (simp add: image_node_def run_simps scenario_message_def HumanMessage_def)

text \<open>
  The example of the specification: the scenario prompt is \<open>a sunset over Kyoto\<close>.
\<close>

theorem image_node_passes_scenario_message_to_chain_witness:
  "image_node example_env example_state [] =
     ([Call_create_scenario example_messages,
       Call_makedirs ''generated_images'',
       Call_generate_image ''a sunset over Kyoto'' ''generated_images/image_0000.png'',
       Call_character_response_chain []
         \<lparr>in_messages = example_messages @
            [\<lparr>mtype = human,
              content = ''<image attached by Ava generated from prompt: a sunset over Kyoto>'',
              id_of = None\<rparr>],
          in_current_activity = ''Ava is walking in Kyoto.'',
          in_memory_context = []\<rparr> []],
      Inr (empty_update\<lparr>upd_messages := Some (One (AIMessage ''Here is my view!'')),
                        upd_image_path := Some ''generated_images/image_0000.png''\<rparr>))"
  using image_node_passes_scenario_message_to_chain
          [of example_env example_state "\<lparr>image_prompt = ''a sunset over Kyoto''\<rparr>"
              "[]" "''Here is my view!''"]
  by (simp add: example_env_def example_state_def example_messages_def py_slice_from_def
      img_path_def get_or_empty_def scenario_message_def HumanMessage_def)

subsection \<open>The summarization node: what is pruned\<close>




subsection \<open>The summarization node: the instruction\<close>

text \<open>
  C4: the summarization node calls the model on the whole history followed by one
  instruction. When \<open>summary\<close> is empty (or absent) the instruction asks to create a
  summary of the conversation above; otherwise the instruction quotes the summary so far
  and asks to extend it.
\<close>

theorem summarize_instruction_depends_on_summary:
  "fst (summarize_conversation_node E cfg s) =
     [Call_chat_model
        (messages s @ [HumanMessage (summary_message (get_or_empty (summary s)))])]
   \<and> (get_or_empty (summary s) = [] \<longrightarrow>
        summary_message (get_or_empty (summary s)) =
          ''Create a summary of the conversation above between Ava and the user. ''
          @ ''The summary must be a short description of the conversation so far, ''
          @ ''but that captures all the relevant information shared between Ava and the user:'')
   \<and> (get_or_empty (summary s) \<noteq> [] \<longrightarrow>
        summary_message (get_or_empty (summary s)) =
          ''This is summary of the conversation to date between Ava and the user: ''
          @ get_or_empty (summary s) @ [CHR 0x0A, CHR 0x0A]
          @ ''Extend the summary by taking into account the new messages above:'')"
  by (simp add: summarize_conversation_node_def Let_def fst_and_then_done summary_message_def)

text \<open>
  A state without a summary and a state with the summary \<open>Alex loves jazz.\<close>
\<close>

theorem summarize_instruction_depends_on_summary_witness:
  "fst (summarize_conversation_node example_env example_settings example_state) =
     [Call_chat_model
        (example_messages @
         [HumanMessage
            (''Create a summary of the conversation above between Ava and the user. ''
             @ ''The summary must be a short description of the conversation so far, ''
             @ ''but that captures all the relevant information shared between Ava and the user:'')])]
   \<and> fst (summarize_conversation_node example_env example_settings summarized_state) =
     [Call_chat_model
        (example_messages @
         [HumanMessage
            (''This is summary of the conversation to date between Ava and the user: ''
             @ ''Alex loves jazz.'' @ [CHR 0x0A, CHR 0x0A]
             @ ''Extend the summary by taking into account the new messages above:'')])]"
  using summarize_instruction_depends_on_summary [of example_env example_settings example_state]
    summarize_instruction_depends_on_summary [of example_env example_settings summarized_state]
  by (simp add: example_state_def summarized_state_def get_or_empty_def)

subsection \<open>The memory injection node\<close>

text \<open>
  C5, where the statement fails: on an empty history the memory injection node still
  queries the store, with the empty string, and returns an update that sets
  \<open>memory_context\<close>.
\<close>

theorem memory_injection_empty_history_counterexample:
  "messages empty_state = []
   \<and> memory_injection_node example_env empty_state =
       ([Call_get_relevant_memories []],
        Inr (empty_update\<lparr>upd_memory_context := Some ''Alex loves jazz''\<rparr>))
   \<and> empty_update\<lparr>upd_memory_context := Some ''Alex loves jazz''\<rparr> \<noteq> empty_update"
  by (simp add: memory_injection_node_def empty_state_def example_state_def example_env_def
      py_slice_from_def run_simps empty_update_def)

text \<open>
  C5, as the code has it: on an empty history the memory injection node makes exactly one
  call, the store query with the empty string; it fails only if that query fails, and
  otherwise returns an update whose only key is \<open>memory_context\<close>, set to the formatted
  result of the query.
\<close>

theorem memory_injection_empty_history_queries_store:
  assumes "messages s = []"
  shows "fst (memory_injection_node E s) = [Call_get_relevant_memories []]
         \<and> snd (memory_injection_node E s) =
             map_sum id
               (\<lambda>memories. empty_update
                  \<lparr>upd_memory_context := Some (format_memories_for_prompt E memories)\<rparr>)
               (get_relevant_memories E [])"
  using assms
  by (simp add: memory_injection_node_def py_slice_from_def fst_and_then_done snd_and_then_done)

text \<open>
  The example store answers the empty query with one memory.
\<close>

theorem memory_injection_empty_history_queries_store_witness:
  "messages empty_state = []
   \<and> fst (memory_injection_node example_env empty_state) = [Call_get_relevant_memories []]
   \<and> snd (memory_injection_node example_env empty_state) =
       Inr (empty_update\<lparr>upd_memory_context := Some ''Alex loves jazz''\<rparr>)"
proof -
  have h: "messages empty_state = []"
    by (simp add: empty_state_def)
  from memory_injection_empty_history_queries_store [OF h, of example_env] h
  show ?thesis
    by (simp add: example_env_def)
qed

subsection \<open>The context injection node\<close>

text \<open>
  C6, where the statement fails: on a first turn (no \<open>current_activity\<close> in the state)
  with a schedule whose activity text is the empty string, \<open>apply_activity\<close> is false.
\<close>

theorem context_injection_first_turn_counterexample:
  "current_activity example_state = None
   \<and> context_injection_node idle_env example_state =
       empty_update\<lparr>upd_apply_activity := Some False, upd_current_activity := Some []\<rparr>"
  by (simp add: context_injection_node_def idle_env_def example_env_def example_state_def
      get_or_empty_def)

text \<open>
  C6, as the code has it: the context injection node sets \<open>current_activity\<close> to the
  schedule's activity and \<open>apply_activity\<close> to whether that activity differs from
  \<open>state.get("current_activity", "")\<close>: from the prior activity when there is one, and
  from the empty string on the first turn, so that \<open>apply_activity\<close> is true on the first
  turn exactly when the schedule's activity is not the empty string.
\<close>

theorem context_injection_compares_with_default:
  "context_injection_node E s =
     empty_update
       \<lparr>upd_apply_activity :=
          Some (get_current_activity E \<noteq> get_or_empty (current_activity s)),
        upd_current_activity := Some (get_current_activity E)\<rparr>
   \<and> (\<forall>prior. current_activity s = Some prior \<longrightarrow>
         upd_apply_activity (context_injection_node E s)
           = Some (get_current_activity E \<noteq> prior))
   \<and> (current_activity s = None \<longrightarrow>
         upd_apply_activity (context_injection_node E s)
           = Some (get_current_activity E \<noteq> []))"
  by (simp add: context_injection_node_def Let_def get_or_empty_def empty_update_def)

text \<open>
  A state with a prior activity that differs, and a first turn.
\<close>

theorem context_injection_compares_with_default_witness:
  "current_activity summarized_state = Some ''Ava is having lunch.''
   \<and> upd_apply_activity (context_injection_node example_env summarized_state) = Some True
   \<and> current_activity example_state = None
   \<and> upd_apply_activity (context_injection_node example_env example_state) = Some True
   \<and> upd_current_activity (context_injection_node example_env example_state)
       = Some ''Ava is walking in Kyoto.''"
  using context_injection_compares_with_default [of example_env summarized_state]
    context_injection_compares_with_default [of example_env example_state]
  by (simp add: summarized_state_def example_state_def example_env_def empty_update_def
      get_or_empty_def)

subsection \<open>The memory extraction node\<close>

text \<open>
  C7: on an empty history the memory extraction node calls nothing and returns the empty
  update. Otherwise it makes exactly one call, the store's extraction routine on the last
  message; it fails only if that call fails, and otherwise returns the empty update.
\<close>

theorem memory_extraction_latest_message_only:
  "(messages s = [] \<longrightarrow> memory_extraction_node E s = ([], Inr empty_update))
   \<and> (messages s \<noteq> [] \<longrightarrow>
        fst (memory_extraction_node E s)
          = [Call_extract_and_store_memories (last (messages s))]
        \<and> snd (memory_extraction_node E s)
          = map_sum id (\<lambda>_. empty_update) (extract_and_store_memories E (last (messages s))))"
  by (cases "extract_and_store_memories E (last (messages s))")
     (simp_all add: memory_extraction_node_def run_simps)

text \<open>
  The empty history, and a history of three messages.
\<close>

theorem memory_extraction_latest_message_only_witness:
  "messages empty_state = []
   \<and> memory_extraction_node example_env empty_state = ([], Inr empty_update)
   \<and> messages example_state \<noteq> []
   \<and> fst (memory_extraction_node example_env example_state) =
       [Call_extract_and_store_memories
          \<lparr>mtype = human, content = ''Show me where you are.'', id_of = Some ''m3''\<rparr>]
   \<and> snd (memory_extraction_node example_env example_state) = Inr empty_update"
  using memory_extraction_latest_message_only [of empty_state example_env]
    memory_extraction_latest_message_only [of example_state example_env]
  by (simp add: empty_state_def example_state_def example_messages_def example_env_def)

subsection \<open>The audio node\<close>

text \<open>
  C8: when the response chain and the speech module answer, the audio node first calls
  the response chain on the history, then the speech module on exactly the chain's
  response; the update holds the response as a bare string under \<open>messages\<close> (not an
  agent message built from it, which is what the conversation node returns on the same
  response) and the audio under \<open>audio_buffer\<close>, and nothing else.
\<close>

theorem audio_node_stores_raw_response:
  assumes "character_response_chain E (get_or_empty (summary s))
             \<lparr>in_messages = messages s,
              in_current_activity = get_current_activity E,
              in_memory_context = get_or_empty (memory_context s)\<rparr> config = Inr response"
    and "synthesize E response = Inr output_audio"
  shows "audio_node E s config =
           ([Call_character_response_chain (get_or_empty (summary s))
               \<lparr>in_messages = messages s,
                in_current_activity = get_current_activity E,
                in_memory_context = get_or_empty (memory_context s)\<rparr> config,
             Call_synthesize response],
            Inr (empty_update\<lparr>upd_messages := Some (Raw response),
                              upd_audio_buffer := Some output_audio\<rparr>))
         \<and> Raw response \<noteq> One (AIMessage response)
         \<and> snd (conversation_node E s config) =
             Inr (empty_update\<lparr>upd_messages := Some (One (AIMessage response))\<rparr>)"
  using assms by (simp add: audio_node_def conversation_node_def Let_def run_simps)

text \<open>
  The example chain answers \<open>Here is my view!\<close>, the speech module three bytes.
\<close>

theorem audio_node_stores_raw_response_witness:
  "audio_node example_env example_state [] =
     ([Call_character_response_chain []
         \<lparr>in_messages = example_messages,
          in_current_activity = ''Ava is walking in Kyoto.'',
          in_memory_context = []\<rparr> [],
       Call_synthesize ''Here is my view!''],
      Inr (empty_update\<lparr>upd_messages := Some (Raw ''Here is my view!''),
                        upd_audio_buffer := Some [1, 2, 3]\<rparr>))"
  using audio_node_stores_raw_response
          [of example_env example_state "[]" "''Here is my view!''" "[1, 2, 3]"]
  by (simp add: example_env_def example_state_def get_or_empty_def)

subsection \<open>The response generators and the activity fields\<close>

text \<open>
  C9: a response generator gives the same run (the same calls with the same arguments,
  and the same result) on two states that differ only in \<open>current_activity\<close> and
  \<open>apply_activity\<close>; the activity handed to the response chain is the one of the
  schedule.
\<close>

theorem generators_ignore_activity_fields:
  "conversation_node E (s\<lparr>current_activity := a, apply_activity := b\<rparr>) config
     = conversation_node E s config
   \<and> image_node E (s\<lparr>current_activity := a, apply_activity := b\<rparr>) config
     = image_node E s config
   \<and> audio_node E (s\<lparr>current_activity := a, apply_activity := b\<rparr>) config
     = audio_node E s config
   \<and> fst (conversation_node E s config) =
       [Call_character_response_chain (get_or_empty (summary s))
          \<lparr>in_messages = messages s,
           in_current_activity = get_current_activity E,
           in_memory_context = get_or_empty (memory_context s)\<rparr> config]
   \<and> fst (audio_node E s config) \<noteq> []
   \<and> hd (fst (audio_node E s config)) =
       Call_character_response_chain (get_or_empty (summary s))
          \<lparr>in_messages = messages s,
           in_current_activity = get_current_activity E,
           in_memory_context = get_or_empty (memory_context s)\<rparr> config"
proof -
  let ?inp = "\<lparr>in_messages = messages s, in_current_activity = get_current_activity E,
                in_memory_context = get_or_empty (memory_context s)\<rparr>"
  have same: "conversation_node E (s\<lparr>current_activity := a, apply_activity := b\<rparr>) config
       = conversation_node E s config
     \<and> image_node E (s\<lparr>current_activity := a, apply_activity := b\<rparr>) config
       = image_node E s config
     \<and> audio_node E (s\<lparr>current_activity := a, apply_activity := b\<rparr>) config
       = audio_node E s config"
    by (simp add: conversation_node_def image_node_def audio_node_def)
  have conv: "fst (conversation_node E s config) =
      [Call_character_response_chain (get_or_empty (summary s)) ?inp config]"
    by (simp add: conversation_node_def Let_def fst_and_then_done)
  have audio: "fst (audio_node E s config) \<noteq> []
      \<and> hd (fst (audio_node E s config)) =
          Call_character_response_chain (get_or_empty (summary s)) ?inp config"
    by (cases "character_response_chain E (get_or_empty (summary s)) ?inp config")
       (simp_all add: audio_node_def Let_def and_then_perform_Inr and_then_perform_Inl)
  from same conv audio show ?thesis
    by (simp only: simp_thms)
qed

subsection \<open>The summarization node: what is returned\<close>

text \<open>
  C10: when the model answers, the summarization node has made one call, the model call
  that ends with the instruction message, and it returns an update with two keys:
  \<open>summary\<close>, the content of the model's answer, and \<open>messages\<close>, a list in which
  every element is a removal and in which the instruction message does not occur.
\<close>

theorem summarize_returns_only_removals_and_summary:
  assumes "chat_model E (messages s @ [HumanMessage (summary_message (get_or_empty (summary s)))])
             = Inr response"
  shows "summarize_conversation_node E cfg s =
           ([Call_chat_model
               (messages s @ [HumanMessage (summary_message (get_or_empty (summary s)))])],
            Inr (empty_update
                   \<lparr>upd_summary := Some (content response),
                    upd_messages :=
                      Some (Many (map (\<lambda>m. RemoveMessage (id_of m))
                                    (py_slice_to (- TOTAL_MESSAGES_AFTER_SUMMARY cfg)
                                       (messages s))))\<rparr>))
         \<and> (\<forall>m \<in> set (map (\<lambda>m. RemoveMessage (id_of m))
                         (py_slice_to (- TOTAL_MESSAGES_AFTER_SUMMARY cfg) (messages s))).
               mtype m = remove)
         \<and> HumanMessage (summary_message (get_or_empty (summary s)))
             \<notin> set (map (\<lambda>m. RemoveMessage (id_of m))
                      (py_slice_to (- TOTAL_MESSAGES_AFTER_SUMMARY cfg) (messages s)))"
  using assms
  by (auto simp: summarize_conversation_node_def Let_def run_simps RemoveMessage_def
      HumanMessage_def)

text \<open>
  Three messages with two to keep and a summary to extend.
\<close>

theorem summarize_returns_only_removals_and_summary_witness:
  "summarize_conversation_node example_env example_settings summarized_state =
     ([Call_chat_model
         (example_messages @ [HumanMessage (summary_message ''Alex loves jazz.'')])],
      Inr (empty_update\<lparr>upd_summary := Some ''Alex loves jazz and asked for a picture.'',
                        upd_messages := Some (Many [RemoveMessage (Some ''m1'')])\<rparr>))
   \<and> mtype (RemoveMessage (Some ''m1'')) = remove"
  using summarize_returns_only_removals_and_summary
          [of example_env summarized_state
              "AIMessage ''Alex loves jazz and asked for a picture.''" example_settings]
  by (simp add: example_env_def example_settings_def summarized_state_def example_state_def
      example_messages_def py_slice_to_def get_or_empty_def AIMessage_def)

end
